theory Spec2Isabelle
  imports Complex_Main
begin

section \<open>JavaScript values\<close>

text \<open>
  The tracker is untyped JavaScript: every field of a telemetry payload may hold any value.
  A number is an IEEE double; its finite values are modelled by the real number they denote
  (the comparisons of the source are exact on them), next to \<open>NaN\<close> and the two infinities.
  Objects and arrays are modelled by reference: the program only asks for their type, their
  identity (as a key of a \<open>Map\<close>) and whether they convert to a string.
\<close>

datatype jsnum = NaN | NegInf | Fin real | PosInf

datatype jsval = JUndefined | JNull | JBool bool | JNum jsnum | JStr string | JObj nat

datatype jstype = T_undefined | T_object | T_boolean | T_number | T_string

fun typeof :: "jsval \<Rightarrow> jstype" where
  "typeof JUndefined = T_undefined"
| "typeof JNull = T_object"
| "typeof (JBool b) = T_boolean"
| "typeof (JNum n) = T_number"
| "typeof (JStr s) = T_string"
| "typeof (JObj r) = T_object"

text \<open>The operator \<open><\<close> on two numbers: false as soon as one side is \<open>NaN\<close>.\<close>

fun num_less :: "jsnum \<Rightarrow> jsnum \<Rightarrow> bool" where
  "num_less NaN y = False"
| "num_less x NaN = False"
| "num_less NegInf NegInf = False"
| "num_less NegInf y = True"
| "num_less x NegInf = False"
| "num_less PosInf y = False"
| "num_less x PosInf = True"
| "num_less (Fin a) (Fin b) = (a < b)"

text \<open>The operator \<open>>=\<close> on two numbers: also false as soon as one side is \<open>NaN\<close>.\<close>

definition num_geq :: "jsnum \<Rightarrow> jsnum \<Rightarrow> bool" where
  "num_geq x y = (x \<noteq> NaN \<and> y \<noteq> NaN \<and> \<not> num_less x y)"

text \<open>
  A \<open>Date\<close> object holds a time value in milliseconds since the epoch, or \<open>NaN\<close>
  (an invalid date). Time values are integers; the model does not bound them to the range
  of \<open>Date\<close> (8.64e15 ms on either side of the epoch).
\<close>

datatype date = Date int | Invalid_Date

fun getTime :: "date \<Rightarrow> int option" where
  "getTime (Date t) = Some t"
| "getTime Invalid_Date = None"

text \<open>
  A field that holds a \<open>Date\<close> or \<open>null\<close>, read as a number by \<open>-\<close> and \<open><\<close>:
  \<open>null\<close> is \<open>0\<close>, a date is its time value, \<open>None\<close> stands for \<open>NaN\<close>.
\<close>

fun ToNumber :: "date option \<Rightarrow> int option" where
  "ToNumber None = Some 0"
| "ToNumber (Some d) = getTime d"

datatype error = TypeError

section \<open>The host\<close>

text \<open>
  What the program takes from its runtime:
  \<^item> \<open>Date_from v\<close> is \<open>new Date(v)\<close>; on a string it is the date parser;
  \<^item> \<open>Date_now n\<close> is the wall clock at the \<open>n\<close>-th reading the program makes of its host
    (\<open>new Date()\<close>, \<open>Date.now()\<close>);
  \<^item> \<open>Math_random n\<close> is \<open>Math.random().toString(36).substr(2, 9)\<close> when the \<open>n\<close>-th
    reading is a random draw;
  \<^item> \<open>ToString_ok r\<close> tells whether the object at reference \<open>r\<close> converts to a string
    in a template literal. An array or a plain object does; an object parsed from
    \<open>{"toString": 1}\<close> does not, and the conversion raises \<open>TypeError\<close>.
\<close>

record host =
  Date_from :: "jsval \<Rightarrow> date"
  Date_now :: "nat \<Rightarrow> int"
  Math_random :: "nat \<Rightarrow> string"
  ToString_ok :: "nat \<Rightarrow> bool"

fun stringifies :: "host \<Rightarrow> jsval \<Rightarrow> bool" where
  "stringifies h (JObj r) = ToString_ok h r"
| "stringifies h v = True"

section \<open>Queue (src/queue.js)\<close>

text \<open>
  What \<open>enqueue\<close> is given: \<open>{deviceId, reason, timestamp}\<close>, with \<open>retryAttempt\<close>
  when a retry puts an item back. \<open>toISOString\<close> renders an instant; the model keeps the
  instant. An item is that object with \<open>enqueuedAt\<close> and \<open>id\<close>; the three parts of
  \<open>id\<close> are the queue name, \<open>Date.now()\<close> and the random suffix.
\<close>

record entry =
  deviceId :: jsval
  reason :: string
  item_timestamp :: int
  retryAttempt :: "nat option"

record item = entry +
  enqueuedAt :: int
  item_id :: "string \<times> int \<times> string"

record queue =
  name :: string
  items :: "item list"
  processed :: nat
  retries :: "jsval \<rightharpoonup> nat"

definition Queue :: "string \<Rightarrow> queue" where
  "Queue nm = \<lparr>name = nm, items = [], processed = 0, retries = Map.empty\<rparr>"

text \<open>
  \<open>enqueue\<close> reads the host three times (\<open>new Date()\<close>, \<open>Date.now()\<close>,
  \<open>Math.random()\<close>); \<open>n\<close> is the index of the first of these readings. The spread
  \<open>{...item, enqueuedAt, id}\<close> copies the fields of its argument and sets the last two.
\<close>

definition enqueue :: "host \<Rightarrow> nat \<Rightarrow> 'a entry_scheme \<Rightarrow> queue \<Rightarrow> queue" where
  "enqueue h n e q =
     q\<lparr>items := items q @
        [\<lparr>deviceId = deviceId e, reason = reason e, item_timestamp = item_timestamp e,
          retryAttempt = retryAttempt e,
          enqueuedAt = Date_now h n,
          item_id = (name q, Date_now h (n + 1), Math_random h (n + 2))\<rparr>]\<rparr>"

definition dequeue :: "queue \<Rightarrow> item option \<times> queue" where
  "dequeue q =
     (case items q of
        [] \<Rightarrow> (None, q)
      | x # xs \<Rightarrow> (Some x, q\<lparr>items := xs, processed := processed q + 1\<rparr>))"

definition peek :: "queue \<Rightarrow> item option" where
  "peek q = (case items q of [] \<Rightarrow> None | x # xs \<Rightarrow> Some x)"

definition size_queue :: "queue \<Rightarrow> nat" where
  "size_queue q = length (items q)"

definition getRetryCount :: "jsval \<Rightarrow> queue \<Rightarrow> nat" where
  "getRetryCount k q = (case retries q k of None \<Rightarrow> 0 | Some c \<Rightarrow> c)"

definition retry :: "jsval \<Rightarrow> nat \<Rightarrow> queue \<Rightarrow> bool \<times> queue" where
  "retry k maxRetries q =
     (let currentRetries = (case retries q k of None \<Rightarrow> 0 | Some c \<Rightarrow> c)
      in if currentRetries < maxRetries
         then (True, q\<lparr>retries := (retries q)(k \<mapsto> currentRetries + 1)\<rparr>)
         else (False, q))"

definition clear :: "queue \<Rightarrow> queue" where
  "clear q = q\<lparr>items := [], processed := 0, retries := Map.empty\<rparr>"

text \<open>The calls \<open>retry(k, maxRetries)\<close> made \<open>n\<close> times in a row, with their results in order.\<close>

fun retry_calls :: "nat \<Rightarrow> jsval \<Rightarrow> nat \<Rightarrow> queue \<Rightarrow> bool list \<times> queue" where
  "retry_calls 0 k maxRetries q = ([], q)"
| "retry_calls (Suc n) k maxRetries q =
     (case retry k maxRetries q of
        (r, q') \<Rightarrow> (case retry_calls n k maxRetries q' of (rs, q'') \<Rightarrow> (r # rs, q'')))"

section \<open>StatusTracker (src/logic/statusTracker.js)\<close>

datatype status = UNKNOWN | ONLINE | OFFLINE | FLAPPING | FAULTY

record message =
  device_id :: jsval
  timestamp :: jsval
  power_kw :: jsval
  voltage :: jsval

text \<open>
  The argument of \<open>processMessage\<close>. Reading a property of \<open>null\<close> or \<open>undefined\<close>
  raises; of any other value it gives the property or \<open>undefined\<close>, so a payload that is
  a number, a string or a boolean reads as a message of four \<open>undefined\<close> fields.
\<close>

datatype payload = PUndefined | PNull | PObj message

fun destructure :: "payload \<Rightarrow> error + message" where
  "destructure PUndefined = Inl TypeError"
| "destructure PNull = Inl TypeError"
| "destructure (PObj m) = Inr m"

record device =
  dev_id :: jsval
  status :: status
  lastSeen :: "date option"
  statusChangedAt :: "date option"
  lastMessage :: "message option"

text \<open>Counters are JavaScript numbers, exact on integers below \<open>2^53\<close>; the model counts in \<open>nat\<close>.\<close>

record metrics =
  totalMessages :: nat
  fallbacks :: nat
  flapping :: nat
  faulty :: nat
  startTime :: int

text \<open>
  The \<open>Map\<close> of devices is its lookup function together with the insertion order of its
  keys, which iteration follows. Keys compare as \<open>Map\<close> compares them: primitives by
  value, objects by reference. \<open>reads\<close> counts the readings made of the host so far, and
  \<open>timers\<close> holds the callbacks handed to \<open>setTimeout\<close> that have not run: the delay in
  milliseconds and the item the callback has captured.
\<close>

record tracker =
  devices :: "jsval \<rightharpoonup> device"
  device_order :: "jsval list"
  fallbackQueue :: queue
  tamperCheckQueue :: queue
  quarantineQueue :: queue
  metrics :: metrics
  reads :: nat
  timers :: "(nat \<times> item) list"

text \<open>A call returns, or raises with the state it has reached.\<close>

datatype outcome = Done tracker | Threw error tracker

fun final :: "outcome \<Rightarrow> tracker" where
  "final (Done s) = s"
| "final (Threw e s) = s"

fun returns :: "outcome \<Rightarrow> bool" where
  "returns (Done s) = True"
| "returns (Threw e s) = False"

definition StatusTracker :: "host \<Rightarrow> nat \<Rightarrow> tracker" where
  "StatusTracker h n =
     \<lparr>devices = Map.empty, device_order = [],
      fallbackQueue = Queue ''fallback'',
      tamperCheckQueue = Queue ''tamperCheck'',
      quarantineQueue = Queue ''quarantine'',
      metrics = \<lparr>totalMessages = 0, fallbacks = 0, flapping = 0, faulty = 0,
                 startTime = Date_now h n\<rparr>,
      reads = n + 1, timers = []\<rparr>"

text \<open>
  \<open>console.log\<close> of a line that interpolates the device id: the line is not kept, but
  the interpolation raises when the id does not convert to a string.
\<close>

definition console_log :: "host \<Rightarrow> jsval \<Rightarrow> tracker \<Rightarrow> outcome" where
  "console_log h devId s = (if stringifies h devId then Done s else Threw TypeError s)"

text \<open>
  \<open>getOrCreateDevice\<close> returns the device object and the tracker that holds it. The object
  is shared with the \<open>Map\<close>: an assignment to one of its fields is \<open>store\<close>, the
  write of the changed object under its key.
\<close>

definition getOrCreateDevice :: "jsval \<Rightarrow> tracker \<Rightarrow> device \<times> tracker" where
  "getOrCreateDevice devId s =
     (case devices s devId of
        Some d \<Rightarrow> (d, s)
      | None \<Rightarrow>
          (let d = \<lparr>dev_id = devId, status = UNKNOWN, lastSeen = None,
                    statusChangedAt = None, lastMessage = None\<rparr>
           in (d, s\<lparr>devices := (devices s)(devId \<mapsto> d),
                     device_order := device_order s @ [devId]\<rparr>)))"

definition store :: "jsval \<Rightarrow> device \<Rightarrow> tracker \<Rightarrow> tracker" where
  "store devId d s = s\<lparr>devices := (devices s)(devId \<mapsto> d)\<rparr>"

definition isMessageFaulty :: "host \<Rightarrow> payload \<Rightarrow> error + bool" where
  "isMessageFaulty h payload =
     (case destructure payload of
        Inl e \<Rightarrow> Inl e
      | Inr m \<Rightarrow>
          Inr (if (case voltage m of JNum v \<Rightarrow> num_less v (Fin 50) | _ \<Rightarrow> True) then True
               else if (case timestamp m of JStr t \<Rightarrow> t = ''bad-timestamp'' | _ \<Rightarrow> True) then True
               else if getTime (Date_from h (timestamp m)) = None then True
               else False))"

text \<open>
  Each handler reads the clock twice and then enqueues (three more readings), counts,
  and logs a line with the device id.
\<close>

definition handleOfflineDevice :: "host \<Rightarrow> jsval \<Rightarrow> tracker \<Rightarrow> outcome" where
  "handleOfflineDevice h devId s0 =
     (case getOrCreateDevice devId s0 of
        (deviceState, s1) \<Rightarrow>
          (let n = reads s1;
               s2 = store devId
                      (deviceState\<lparr>status := OFFLINE,
                                   statusChangedAt := Some (Date (Date_now h n))\<rparr>) s1;
               s3 = s2\<lparr>fallbackQueue :=
                        enqueue h (n + 2)
                          \<lparr>deviceId = devId, reason = ''No data for more than 5 minutes'',
                           item_timestamp = Date_now h (n + 1), retryAttempt = None\<rparr>
                          (fallbackQueue s2)\<rparr>;
               s4 = s3\<lparr>metrics := (metrics s3)\<lparr>fallbacks := fallbacks (metrics s3) + 1\<rparr>,
                       reads := n + 5\<rparr>
           in console_log h devId s4))"

definition handleFlappingDevice :: "host \<Rightarrow> jsval \<Rightarrow> tracker \<Rightarrow> outcome" where
  "handleFlappingDevice h devId s0 =
     (case getOrCreateDevice devId s0 of
        (deviceState, s1) \<Rightarrow>
          (let n = reads s1;
               s2 = store devId
                      (deviceState\<lparr>status := FLAPPING,
                                   statusChangedAt := Some (Date (Date_now h n))\<rparr>) s1;
               s3 = s2\<lparr>tamperCheckQueue :=
                        enqueue h (n + 2)
                          \<lparr>deviceId = devId,
                           reason = ''Device came online within 2 minutes of going offline'',
                           item_timestamp = Date_now h (n + 1), retryAttempt = None\<rparr>
                          (tamperCheckQueue s2)\<rparr>;
               s4 = s3\<lparr>metrics := (metrics s3)\<lparr>flapping := flapping (metrics s3) + 1\<rparr>,
                       reads := n + 5\<rparr>
           in console_log h devId s4))"

definition handleFaultyDevice :: "host \<Rightarrow> jsval \<Rightarrow> string \<Rightarrow> tracker \<Rightarrow> outcome" where
  "handleFaultyDevice h devId why s0 =
     (case getOrCreateDevice devId s0 of
        (deviceState, s1) \<Rightarrow>
          (let n = reads s1;
               s2 = store devId
                      (deviceState\<lparr>status := FAULTY,
                                   statusChangedAt := Some (Date (Date_now h n))\<rparr>) s1;
               s3 = s2\<lparr>quarantineQueue :=
                        enqueue h (n + 2)
                          \<lparr>deviceId = devId, reason = why,
                           item_timestamp = Date_now h (n + 1), retryAttempt = None\<rparr>
                          (quarantineQueue s2)\<rparr>;
               s4 = s3\<lparr>metrics := (metrics s3)\<lparr>faulty := faulty (metrics s3) + 1\<rparr>,
                       reads := n + 5\<rparr>
           in console_log h devId s4))"

text \<open>
  \<open>(messageTime - deviceState.statusChangedAt) / 1000 / 60\<close>, in minutes; \<open>None\<close> is
  \<open>NaN\<close>. The two divisions are those of the reals: on a difference of time values the
  rounding of the doubles does not change on which side of \<open>2\<close> the quotient falls.
\<close>

definition offlineDuration :: "date \<Rightarrow> date option \<Rightarrow> real option" where
  "offlineDuration messageTime changedAt =
     (case (getTime messageTime, ToNumber changedAt) of
        (Some a, Some b) \<Rightarrow> Some (real_of_int (a - b) / 1000 / 60)
      | _ \<Rightarrow> None)"

definition processMessage :: "host \<Rightarrow> payload \<Rightarrow> tracker \<Rightarrow> outcome" where
  "processMessage h payload s0 =
     (let s1 = s0\<lparr>metrics := (metrics s0)\<lparr>totalMessages := totalMessages (metrics s0) + 1\<rparr>\<rparr>
      in case destructure payload of
           Inl e \<Rightarrow> Threw e s1
         | Inr m \<Rightarrow>
             (let s2 = s1\<lparr>reads := reads s1 + 1\<rparr>
              in case isMessageFaulty h payload of
                   Inl e \<Rightarrow> Threw e s2
                 | Inr True \<Rightarrow>
                     handleFaultyDevice h (device_id m) ''Invalid voltage or timestamp'' s2
                 | Inr False \<Rightarrow>
                     (let messageTime = Date_from h (timestamp m)
                      in case getOrCreateDevice (device_id m) s2 of
                           (d0, s3) \<Rightarrow>
                             (let deviceState = d0\<lparr>lastSeen := Some messageTime,
                                                   lastMessage := Some m\<rparr>;
                                  s4 = store (device_id m) deviceState s3
                              in if status deviceState = OFFLINE
                                 then (if (case offlineDuration messageTime
                                                  (statusChangedAt deviceState) of
                                             None \<Rightarrow> False | Some r \<Rightarrow> r \<le> 2)
                                       then handleFlappingDevice h (device_id m) s4
                                       else Done (store (device_id m)
                                                    (deviceState\<lparr>status := ONLINE,
                                                       statusChangedAt := Some messageTime\<rparr>) s4))
                                 else Done (store (device_id m)
                                              (deviceState\<lparr>status := ONLINE,
                                                 statusChangedAt :=
                                                   (if statusChangedAt deviceState = None
                                                    then Some messageTime
                                                    else statusChangedAt deviceState)\<rparr>) s4)))))"

text \<open>
  The sweep. \<open>is_stale\<close> is the condition of its \<open>if\<close>, in which
  \<open>lastSeen < fiveMinutesAgo\<close> compares numbers: a \<open>null\<close> \<open>lastSeen\<close> reads as
  \<open>0\<close>, the epoch. The loop follows the keys in insertion order, reads the record that
  the \<open>Map\<close> holds for each at that moment, and stops at the first handler that raises.
\<close>

definition is_stale :: "int \<Rightarrow> device \<Rightarrow> bool" where
  "is_stale fiveMinutesAgo deviceState =
     (status deviceState \<noteq> OFFLINE \<and>
      (case ToNumber (lastSeen deviceState) of None \<Rightarrow> False | Some t \<Rightarrow> t < fiveMinutesAgo))"

fun sweep :: "host \<Rightarrow> int \<Rightarrow> jsval list \<Rightarrow> tracker \<Rightarrow> outcome" where
  "sweep h fiveMinutesAgo [] s = Done s"
| "sweep h fiveMinutesAgo (devId # rest) s =
     (case devices s devId of
        None \<Rightarrow> sweep h fiveMinutesAgo rest s
      | Some deviceState \<Rightarrow>
          if is_stale fiveMinutesAgo deviceState
          then (case handleOfflineDevice h devId s of
                  Threw e s' \<Rightarrow> Threw e s'
                | Done s' \<Rightarrow> sweep h fiveMinutesAgo rest s')
          else sweep h fiveMinutesAgo rest s)"

definition checkOfflineDevices :: "host \<Rightarrow> tracker \<Rightarrow> outcome" where
  "checkOfflineDevices h s0 =
     (let now = Date_now h (reads s0);
          s1 = s0\<lparr>reads := reads s0 + 1\<rparr>;
          fiveMinutesAgo = now - 5 * 60 * 1000
      in sweep h fiveMinutesAgo (device_order s1) s1)"

text \<open>
  The retry drain, with \<open>maxRetries = 3\<close>. \<open>setTimeout\<close> only records the callback:
  nothing it would enqueue is in the queue while the loop runs. The loop is a recursion on
  the length of the queue: \<open>dequeue\<close> gives no item only when the queue is empty, which
  the loop condition excludes.
\<close>

function drain :: "nat \<Rightarrow> tracker \<Rightarrow> tracker" where
  "drain retryCount s =
     (if size_queue (fallbackQueue s) > 0 \<and> retryCount < 100
      then (case dequeue (fallbackQueue s) of
              (None, q) \<Rightarrow> drain retryCount (s\<lparr>fallbackQueue := q\<rparr>)
            | (Some it, q) \<Rightarrow>
                (case retry (deviceId it) 3 q of
                   (canRetry, q') \<Rightarrow>
                     drain (retryCount + 1)
                       (s\<lparr>fallbackQueue := q',
                          timers := (if canRetry
                                     then timers s @ [(1000 * (retryCount + 1), it)]
                                     else timers s)\<rparr>)))
      else s)"
  by pat_completeness auto
termination
  by (relation "measure (\<lambda>(retryCount, s). length (items (fallbackQueue s)))")
     (auto simp: size_queue_def dequeue_def retry_def Let_def split: list.splits if_splits)

definition processFallbackRetries :: "tracker \<Rightarrow> tracker" where
  "processFallbackRetries s = drain 0 s"

text \<open>The callback of a timer, when the host runs it.\<close>

definition retryCallback :: "host \<Rightarrow> item \<Rightarrow> tracker \<Rightarrow> outcome" where
  "retryCallback h it s =
     (let currentRetries = getRetryCount (deviceId it) (fallbackQueue s)
      in case console_log h (deviceId it) s of
           Threw e s' \<Rightarrow> Threw e s'
         | Done s' \<Rightarrow>
             if currentRetries < 3
             then Done (s'\<lparr>fallbackQueue :=
                              enqueue h (reads s') (it\<lparr>retryAttempt := Some currentRetries\<rparr>)
                                (fallbackQueue s'),
                            reads := reads s' + 3\<rparr>)
             else Done s')"

section \<open>Concrete inputs\<close>

text \<open>
  A host for the examples. Its parser knows three timestamps of 2 June 2025 (10:00, 10:07
  and 10:15 UTC) and rejects every other string; on the other values it is the \<open>Date\<close>
  constructor. Its clock shows 10:06 UTC at the first reading and one millisecond more at
  each further reading. The object at reference \<open>0\<close> does not convert to a string.
\<close>

definition sample_host :: host where
  "sample_host =
     \<lparr>Date_from = (\<lambda>v. case v of
          JUndefined \<Rightarrow> Invalid_Date
        | JNull \<Rightarrow> Date 0
        | JBool b \<Rightarrow> Date (if b then 1 else 0)
        | JNum n \<Rightarrow> (case n of Fin r \<Rightarrow> Date (if 0 \<le> r then \<lfloor>r\<rfloor> else \<lceil>r\<rceil>) | _ \<Rightarrow> Invalid_Date)
        | JStr t \<Rightarrow>
            (if t = ''2025-06-02T10:00:00.000Z'' then Date 1748858400000
             else if t = ''2025-06-02T10:07:00.000Z'' then Date 1748858820000
             else if t = ''2025-06-02T10:15:00.000Z'' then Date 1748859300000
             else Invalid_Date)
        | JObj r \<Rightarrow> Invalid_Date),
      Date_now = (\<lambda>n. 1748858760000 + int n),
      Math_random = (\<lambda>n. ''k3j9x0q2a''),
      ToString_ok = (\<lambda>r. r \<noteq> 0)\<rparr>"

text \<open>The same host with a clock that starts at the epoch, as a test clock does.\<close>

definition epoch_host :: host where
  "epoch_host = sample_host\<lparr>Date_now := (\<lambda>n. int n)\<rparr>"

definition at_10_00 :: jsval where "at_10_00 = JStr ''2025-06-02T10:00:00.000Z''"

definition at_10_07 :: jsval where "at_10_07 = JStr ''2025-06-02T10:07:00.000Z''"

definition at_10_15 :: jsval where "at_10_15 = JStr ''2025-06-02T10:15:00.000Z''"

definition telemetry :: "string \<Rightarrow> jsval \<Rightarrow> jsval \<Rightarrow> message" where
  "telemetry dev ts volt =
     \<lparr>device_id = JStr dev, timestamp = ts, power_kw = JNum (Fin 3), voltage = volt\<rparr>"

text \<open>A tracker, new but for one device that it tracks.\<close>

definition tracker_with :: "host \<Rightarrow> device \<Rightarrow> tracker" where
  "tracker_with h d =
     (StatusTracker h 0)\<lparr>devices := [dev_id d \<mapsto> d], device_order := [dev_id d]\<rparr>"

text \<open>
  Device \<open>D2\<close> after a valid message of 10:00, the same device after a sweep at 10:06
  has found it silent, and device \<open>D1\<close> after a faulty first message on the epoch clock.
\<close>

definition D2_online :: device where
  "D2_online =
     \<lparr>dev_id = JStr ''D2'', status = ONLINE, lastSeen = Some (Date 1748858400000),
      statusChangedAt = Some (Date 1748858400000),
      lastMessage = Some (telemetry ''D2'' at_10_00 (JNum (Fin 230)))\<rparr>"

definition D2_offline :: device where
  "D2_offline = D2_online\<lparr>status := OFFLINE, statusChangedAt := Some (Date 1748858760002)\<rparr>"

definition D1_faulty :: device where
  "D1_faulty =
     \<lparr>dev_id = JStr ''D1'', status = FAULTY, lastSeen = None,
      statusChangedAt = Some (Date 2), lastMessage = None\<rparr>"

text \<open>A new tracker on the epoch clock after one faulty message for \<open>D1\<close>.\<close>

definition quarantined :: tracker where
  "quarantined =
     final (processMessage epoch_host (PObj (telemetry ''D1'' at_10_00 (JNum (Fin 10))))
              (StatusTracker epoch_host 0))"





text \<open>The items of a queue that concern one device.\<close>

definition items_for :: "jsval \<Rightarrow> queue \<Rightarrow> item list" where
  "items_for k q = filter (\<lambda>i. deviceId i = k) (items q)"


text \<open>
  The \<open>Map\<close> behind the two fields of the model: the keys in \<open>device_order\<close> are those
  with a record, each once.
\<close>

definition well_formed :: "tracker \<Rightarrow> bool" where
  "well_formed s = (distinct (device_order s) \<and> set (device_order s) = dom (devices s))"

section \<open>Queue: the retry cap\<close>

lemma retry_result: "fst (retry k m q) = (getRetryCount k q < m)"
  by (simp add: retry_def getRetryCount_def Let_def)

lemma retry_count:
  "getRetryCount k (snd (retry k m q)) =
     getRetryCount k q + (if getRetryCount k q < m then 1 else 0)"
  by (simp add: retry_def getRetryCount_def Let_def)

lemma retry_items: "items (snd (retry k m q)) = items q \<and> processed (snd (retry k m q)) = processed q"
  by (simp add: retry_def Let_def)

text \<open>With \<open>b\<close> attempts left below the cap, the next \<open>b\<close> calls succeed and no later one.\<close>

lemma retry_calls_from:
  "getRetryCount k q + b = m \<Longrightarrow>
   fst (retry_calls n k m q) = replicate (min n b) True @ replicate (n - b) False \<and>
   getRetryCount k (snd (retry_calls n k m q)) = getRetryCount k q + min n b"
proof (induction n arbitrary: q b)
  case 0
  then show ?case by simp
next
  case (Suc n)
  obtain r q' where rq: "retry k m q = (r, q')" by (cases "retry k m q")
  obtain rs q'' where rs: "retry_calls n k m q' = (rs, q'')" by (cases "retry_calls n k m q'")
  have r: "r = (getRetryCount k q < m)" using retry_result[of k m q] rq by simp
  have c: "getRetryCount k q' = getRetryCount k q + (if getRetryCount k q < m then 1 else 0)"
    using retry_count[of k m q] rq by simp
  show ?case
  proof (cases b)
    case 0
    then have "getRetryCount k q' + 0 = m" and "\<not> r" using c r Suc.prems by auto
    from Suc.IH[OF this(1)] rs rq \<open>\<not> r\<close> 0 c Suc.prems show ?thesis by simp
  next
    case (Suc b')
    then have "getRetryCount k q' + b' = m" and "r" using c r Suc.prems by auto
    from Suc.IH[OF this(1)] rs rq \<open>r\<close> Suc c Suc.prems show ?thesis by simp
  qed
qed

text \<open>
  Claim C7. For a key \<open>k\<close> that has never been retried, of \<open>n\<close> successive calls
  \<open>retry(k, 3)\<close> the first three return true and every later one false; the count that
  \<open>getRetryCount(k)\<close> reports afterwards is the number of calls that returned true, it is
  at most the cap, and one more call adds one to it exactly when that call returns true.
\<close>

theorem retry_cap_fresh_key:
  assumes "retries q k = None"
  shows "fst (retry_calls n k 3 q) = replicate (min n 3) True @ replicate (n - 3) False
       \<and> getRetryCount k (snd (retry_calls n k 3 q))
           = length (filter (\<lambda>r. r) (fst (retry_calls n k 3 q)))
       \<and> getRetryCount k (snd (retry_calls n k 3 q)) \<le> 3
       \<and> getRetryCount k (snd (retry k 3 (snd (retry_calls n k 3 q))))
           = getRetryCount k (snd (retry_calls n k 3 q))
             + (if fst (retry k 3 (snd (retry_calls n k 3 q))) then 1 else 0)"
proof -
  have z: "getRetryCount k q = 0" using assms by (simp add: getRetryCount_def)
  have "getRetryCount k q + 3 = 3" using z by simp
  from retry_calls_from[OF this, of n] z
  have a: "fst (retry_calls n k 3 q) = replicate (min n 3) True @ replicate (n - 3) False"
    and b: "getRetryCount k (snd (retry_calls n k 3 q)) = min n 3" by simp_all
  show ?thesis using a b by (simp add: retry_count retry_result)
qed

theorem retry_cap_fresh_key_witness:
  "retries (Queue ''fallback'') (JStr ''D1'') = None
   \<and> fst (retry_calls 5 (JStr ''D1'') 3 (Queue ''fallback'')) = [True, True, True, False, False]
   \<and> getRetryCount (JStr ''D1'') (snd (retry_calls 5 (JStr ''D1'') 3 (Queue ''fallback''))) = 3"
proof -
  have h: "retries (Queue ''fallback'') (JStr ''D1'') = None" by (simp add: Queue_def)
  show ?thesis using h retry_cap_fresh_key[OF h, of 5] by (simp add: numeral_eq_Suc)
qed

section \<open>Validation\<close>

text \<open>
  Claim C2. A message whose voltage is a number at least 50 and whose timestamp is a string
  other than \<open>bad-timestamp\<close> that parses is not faulty. A message is faulty when its
  voltage is not a number, or is a number below 50, whatever its timestamp; when its
  timestamp is not a string or is \<open>bad-timestamp\<close>, whatever the parser says; and when
  its timestamp does not parse. \<open>isMessageFaulty\<close> makes the checks in this order.
\<close>

theorem isMessageFaulty_cases:
  "(voltage m = JNum v \<and> num_geq v (Fin 50) \<and> timestamp m = JStr t \<and> t \<noteq> ''bad-timestamp''
      \<and> Date_from h (JStr t) \<noteq> Invalid_Date \<longrightarrow> isMessageFaulty h (PObj m) = Inr False)
   \<and> (typeof (voltage m) \<noteq> T_number \<longrightarrow> isMessageFaulty h (PObj m) = Inr True)
   \<and> (voltage m = JNum v \<and> num_less v (Fin 50) \<longrightarrow> isMessageFaulty h (PObj m) = Inr True)
   \<and> (typeof (timestamp m) \<noteq> T_string \<longrightarrow> isMessageFaulty h (PObj m) = Inr True)
   \<and> (timestamp m = JStr ''bad-timestamp'' \<longrightarrow> isMessageFaulty h (PObj m) = Inr True)
   \<and> (Date_from h (timestamp m) = Invalid_Date \<longrightarrow> isMessageFaulty h (PObj m) = Inr True)"
  by (cases "voltage m"; cases "timestamp m"; cases "Date_from h (timestamp m)")
     (auto simp: isMessageFaulty_def num_geq_def)

theorem isMessageFaulty_cases_witness:
  "isMessageFaulty sample_host (PObj (telemetry ''D1'' (JStr ''2025-06-02T10:00:00.000Z'') (JNum (Fin 230)))) = Inr False
 \<and> isMessageFaulty sample_host (PObj (telemetry ''D1'' (JStr ''2025-06-02T10:00:00.000Z'') (JStr ''bad-timestamp''))) = Inr True
 \<and> isMessageFaulty sample_host (PObj (telemetry ''D1'' (JStr ''2025-06-02T10:00:00.000Z'') (JNum (Fin 10)))) = Inr True
 \<and> isMessageFaulty sample_host (PObj (telemetry ''D1'' JNull (JNum (Fin 230)))) = Inr True
 \<and> isMessageFaulty sample_host (PObj (telemetry ''D1'' (JStr ''bad-timestamp'') (JNum (Fin 230)))) = Inr True
 \<and> isMessageFaulty sample_host (PObj (telemetry ''D1'' (JStr ''yesterday'') (JNum (Fin 230)))) = Inr True"
  using isMessageFaulty_cases[of "telemetry ''D1'' (JStr ''2025-06-02T10:00:00.000Z'') (JNum (Fin 230))" "Fin 230" "''2025-06-02T10:00:00.000Z''" sample_host]
        isMessageFaulty_cases[of "telemetry ''D1'' (JStr ''2025-06-02T10:00:00.000Z'') (JStr ''bad-timestamp'')" "Fin 0" "''''" sample_host]
        isMessageFaulty_cases[of "telemetry ''D1'' (JStr ''2025-06-02T10:00:00.000Z'') (JNum (Fin 10))" "Fin 10" "''''" sample_host]
        isMessageFaulty_cases[of "telemetry ''D1'' JNull (JNum (Fin 230))" "Fin 0" "''''" sample_host]
        isMessageFaulty_cases[of "telemetry ''D1'' (JStr ''bad-timestamp'') (JNum (Fin 230))" "Fin 0" "''''" sample_host]
        isMessageFaulty_cases[of "telemetry ''D1'' (JStr ''yesterday'') (JNum (Fin 230))" "Fin 0" "''''" sample_host]
  by (simp add: telemetry_def sample_host_def num_geq_def)

section \<open>processMessage, path by path\<close>

text \<open>
  The state in which \<open>processMessage\<close> ends on each of its paths, whether it returns or
  the log line of a handler raises; \<open>fst (getOrCreateDevice k s)\<close> is the record of
  device \<open>k\<close> as the call finds it, or the fresh \<open>UNKNOWN\<close> record when there is none.
\<close>

lemma not_faulty_parses:
  "isMessageFaulty h (PObj m) = Inr False \<Longrightarrow> \<exists>t. Date_from h (timestamp m) = Date t"
  by (cases "Date_from h (timestamp m)") (auto simp: isMessageFaulty_def split: if_splits)

lemma processMessage_faulty:
  assumes "isMessageFaulty h (PObj m) = Inr True"
  shows "final (processMessage h (PObj m) s) =
     s\<lparr>devices := (devices s)(device_id m \<mapsto>
          (fst (getOrCreateDevice (device_id m) s))
            \<lparr>status := FAULTY, statusChangedAt := Some (Date (Date_now h (reads s + 1)))\<rparr>),
       device_order := (if devices s (device_id m) = None then device_order s @ [device_id m]
                        else device_order s),
       quarantineQueue := (quarantineQueue s)\<lparr>items := items (quarantineQueue s) @
          [\<lparr>deviceId = device_id m, reason = ''Invalid voltage or timestamp'',
            item_timestamp = Date_now h (reads s + 2), retryAttempt = None,
            enqueuedAt = Date_now h (reads s + 3),
            item_id = (name (quarantineQueue s), Date_now h (reads s + 4),
                       Math_random h (reads s + 5))\<rparr>]\<rparr>,
       metrics := (metrics s)\<lparr>totalMessages := totalMessages (metrics s) + 1,
                              faulty := faulty (metrics s) + 1\<rparr>,
       reads := reads s + 6\<rparr>"
    and "returns (processMessage h (PObj m) s) = stringifies h (device_id m)"
  using assms
  by (cases "devices s (device_id m)";
      simp add: processMessage_def handleFaultyDevice_def getOrCreateDevice_def store_def
        enqueue_def console_log_def Let_def eval_nat_numeral)+

lemma processMessage_online:
  assumes "isMessageFaulty h (PObj m) = Inr False"
      and "status (fst (getOrCreateDevice (device_id m) s)) \<noteq> OFFLINE"
  shows "processMessage h (PObj m) s = Done
     (s\<lparr>devices := (devices s)(device_id m \<mapsto>
          (fst (getOrCreateDevice (device_id m) s))
            \<lparr>lastSeen := Some (Date_from h (timestamp m)), lastMessage := Some m,
             status := ONLINE,
             statusChangedAt :=
               (if statusChangedAt (fst (getOrCreateDevice (device_id m) s)) = None
                then Some (Date_from h (timestamp m))
                else statusChangedAt (fst (getOrCreateDevice (device_id m) s)))\<rparr>),
       device_order := (if devices s (device_id m) = None then device_order s @ [device_id m]
                        else device_order s),
       metrics := (metrics s)\<lparr>totalMessages := totalMessages (metrics s) + 1\<rparr>,
       reads := reads s + 1\<rparr>)"
  using assms
  by (cases "devices s (device_id m)";
      simp add: processMessage_def getOrCreateDevice_def store_def Let_def)

lemma duration_le_2: "(real_of_int (t - c) / 1000 / 60 \<le> 2) = (t - c \<le> 120000)"
  by (simp add: field_simps) linarith

lemma processMessage_offline:
  assumes "isMessageFaulty h (PObj m) = Inr False"
      and "devices s (device_id m) = Some d" and "status d = OFFLINE"
      and "ToNumber (statusChangedAt d) = Some c" and "Date_from h (timestamp m) = Date t"
  shows "t - c \<le> 120000 \<Longrightarrow> final (processMessage h (PObj m) s) =
     s\<lparr>devices := (devices s)(device_id m \<mapsto>
          d\<lparr>lastSeen := Some (Date t), lastMessage := Some m, status := FLAPPING,
            statusChangedAt := Some (Date (Date_now h (reads s + 1)))\<rparr>),
       tamperCheckQueue := (tamperCheckQueue s)\<lparr>items := items (tamperCheckQueue s) @
          [\<lparr>deviceId = device_id m,
            reason = ''Device came online within 2 minutes of going offline'',
            item_timestamp = Date_now h (reads s + 2), retryAttempt = None,
            enqueuedAt = Date_now h (reads s + 3),
            item_id = (name (tamperCheckQueue s), Date_now h (reads s + 4),
                       Math_random h (reads s + 5))\<rparr>]\<rparr>,
       metrics := (metrics s)\<lparr>totalMessages := totalMessages (metrics s) + 1,
                              flapping := flapping (metrics s) + 1\<rparr>,
       reads := reads s + 6\<rparr>"
    and "t - c \<le> 120000 \<Longrightarrow> returns (processMessage h (PObj m) s) = stringifies h (device_id m)"
    and "120000 < t - c \<Longrightarrow> processMessage h (PObj m) s = Done
     (s\<lparr>devices := (devices s)(device_id m \<mapsto>
          d\<lparr>lastSeen := Some (Date t), lastMessage := Some m, status := ONLINE,
            statusChangedAt := Some (Date t)\<rparr>),
       metrics := (metrics s)\<lparr>totalMessages := totalMessages (metrics s) + 1\<rparr>,
       reads := reads s + 1\<rparr>)"
  using assms
  by (simp_all add: processMessage_def handleFlappingDevice_def getOrCreateDevice_def store_def
      enqueue_def console_log_def Let_def offlineDuration_def duration_le_2 eval_nat_numeral)

lemma isMessageFaulty_PObj: "\<exists>b. isMessageFaulty h (PObj m) = Inr b"
  by (simp add: isMessageFaulty_def)

lemma existing_device: "devices s k = Some d \<Longrightarrow> getOrCreateDevice k s = (d, s)"
  by (simp add: getOrCreateDevice_def)

lemma offline_is_tracked:
  "status (fst (getOrCreateDevice k s)) = OFFLINE \<Longrightarrow> \<exists>d. devices s k = Some d \<and> status d = OFFLINE"
  by (cases "devices s k") (simp_all add: getOrCreateDevice_def Let_def)

lemma processMessage_offline_any:
  assumes "isMessageFaulty h (PObj m) = Inr False"
      and "devices s (device_id m) = Some d" and "status d = OFFLINE"
  shows "\<exists>d'. devices (final (processMessage h (PObj m) s)) (device_id m) = Some d'
           \<and> (status d' = FLAPPING \<and> statusChangedAt d' = Some (Date (Date_now h (reads s + 1)))
              \<or> status d' = ONLINE \<and> statusChangedAt d' = Some (Date_from h (timestamp m)))"
    and "stringifies h (device_id m) \<Longrightarrow> returns (processMessage h (PObj m) s)"
  using assms
  by (cases "case offlineDuration (Date_from h (timestamp m)) (statusChangedAt d) of
               None \<Rightarrow> False | Some r \<Rightarrow> r \<le> 2";
      simp add: processMessage_def handleFlappingDevice_def getOrCreateDevice_def store_def
        enqueue_def console_log_def Let_def)+

section \<open>Faulty messages\<close>

text \<open>
  Claim C4. When \<open>isMessageFaulty\<close> classifies a payload as faulty, \<open>processMessage\<close>
  creates the record of its device if there is none, sets the status to \<open>FAULTY\<close> and
  \<open>statusChangedAt\<close> to the clock reading it takes in the handler, appends the one item
  \<open>{deviceId, reason, timestamp}\<close> to the quarantine queue and adds one to the
  \<open>faulty\<close> counter (and to \<open>totalMessages\<close>, as for every message). Nothing else
  changes: \<open>lastSeen\<close> and \<open>lastMessage\<close> of the device, the other devices, the other
  queues and the other counters are as they were. This is the state in which the call ends,
  whether it returns or its log line raises.
\<close>

theorem faulty_payload_quarantined:
  assumes "isMessageFaulty h (PObj m) = Inr True"
  shows "let k = device_id m;
             s' = final (processMessage h (PObj m) s);
             now = Date (Date_now h (reads s + 1))
         in (case devices s k of
               None \<Rightarrow>
                 devices s' = (devices s)(k \<mapsto>
                    \<lparr>dev_id = k, status = FAULTY, lastSeen = None, statusChangedAt = Some now,
                     lastMessage = None\<rparr>)
                 \<and> device_order s' = device_order s @ [k]
             | Some d \<Rightarrow>
                 devices s' = (devices s)(k \<mapsto> d\<lparr>status := FAULTY, statusChangedAt := Some now\<rparr>)
                 \<and> device_order s' = device_order s)
          \<and> quarantineQueue s' = (quarantineQueue s)\<lparr>items := items (quarantineQueue s) @
               [\<lparr>deviceId = k, reason = ''Invalid voltage or timestamp'',
                 item_timestamp = Date_now h (reads s + 2), retryAttempt = None,
                 enqueuedAt = Date_now h (reads s + 3),
                 item_id = (name (quarantineQueue s), Date_now h (reads s + 4),
                            Math_random h (reads s + 5))\<rparr>]\<rparr>
          \<and> metrics s' = (metrics s)\<lparr>totalMessages := totalMessages (metrics s) + 1,
                                      faulty := faulty (metrics s) + 1\<rparr>
          \<and> fallbackQueue s' = fallbackQueue s
          \<and> tamperCheckQueue s' = tamperCheckQueue s
          \<and> timers s' = timers s"
  unfolding Let_def processMessage_faulty(1)[OF assms]
  by (cases "devices s (device_id m)") (simp_all add: getOrCreateDevice_def Let_def)

theorem faulty_payload_quarantined_witness:
  "isMessageFaulty sample_host (PObj (telemetry ''D1'' at_10_00 (JNum (Fin 10)))) = Inr True
   \<and> devices (final (processMessage sample_host (PObj (telemetry ''D1'' at_10_00 (JNum (Fin 10))))
                 (StatusTracker sample_host 0))) (JStr ''D1'')
     = Some \<lparr>dev_id = JStr ''D1'', status = FAULTY, lastSeen = None,
             statusChangedAt = Some (Date 1748858760002), lastMessage = None\<rparr>
   \<and> faulty (metrics (final (processMessage sample_host
                 (PObj (telemetry ''D1'' at_10_00 (JNum (Fin 10)))) (StatusTracker sample_host 0)))) = 1
   \<and> length (items (quarantineQueue (final (processMessage sample_host
                 (PObj (telemetry ''D1'' at_10_00 (JNum (Fin 10)))) (StatusTracker sample_host 0))))) = 1"
proof -
  have h: "isMessageFaulty sample_host (PObj (telemetry ''D1'' at_10_00 (JNum (Fin 10)))) = Inr True"
    by (simp add: isMessageFaulty_def telemetry_def)
  show ?thesis
    using h faulty_payload_quarantined[OF h, of "StatusTracker sample_host 0"]
    by (simp add: Let_def StatusTracker_def Queue_def telemetry_def sample_host_def)
qed

section \<open>Messages from a device that is OFFLINE\<close>

text \<open>
  Claim C1. A valid message arrives for a device whose status is \<open>OFFLINE\<close>; \<open>t\<close> is
  the time of the message and \<open>c\<close> the device's \<open>statusChangedAt\<close>, in milliseconds.
  If \<open>t - c\<close> is at most two minutes, the status becomes \<open>FLAPPING\<close>,
  \<open>statusChangedAt\<close> the clock reading taken in the handler, exactly one item is appended
  to the tamper-check queue and \<open>flapping\<close> grows by one. If it is more, the status
  becomes \<open>ONLINE\<close>, \<open>statusChangedAt\<close> the time of the message, no queue changes and
  \<open>flapping\<close> stays.
\<close>

theorem offline_device_message:
  assumes "isMessageFaulty h (PObj m) = Inr False"
      and "devices s (device_id m) = Some d" and "status d = OFFLINE"
      and "ToNumber (statusChangedAt d) = Some c" and "Date_from h (timestamp m) = Date t"
  shows "let k = device_id m; s' = final (processMessage h (PObj m) s)
         in (t - c \<le> 120000 \<longrightarrow>
               devices s' = (devices s)(k \<mapsto>
                  d\<lparr>lastSeen := Some (Date t), lastMessage := Some m, status := FLAPPING,
                    statusChangedAt := Some (Date (Date_now h (reads s + 1)))\<rparr>)
               \<and> tamperCheckQueue s' = (tamperCheckQueue s)\<lparr>items := items (tamperCheckQueue s) @
                    [\<lparr>deviceId = k,
                      reason = ''Device came online within 2 minutes of going offline'',
                      item_timestamp = Date_now h (reads s + 2), retryAttempt = None,
                      enqueuedAt = Date_now h (reads s + 3),
                      item_id = (name (tamperCheckQueue s), Date_now h (reads s + 4),
                                 Math_random h (reads s + 5))\<rparr>]\<rparr>
               \<and> metrics s' = (metrics s)\<lparr>totalMessages := totalMessages (metrics s) + 1,
                                           flapping := flapping (metrics s) + 1\<rparr>
               \<and> fallbackQueue s' = fallbackQueue s
               \<and> quarantineQueue s' = quarantineQueue s)
          \<and> (120000 < t - c \<longrightarrow>
               devices s' = (devices s)(k \<mapsto>
                  d\<lparr>lastSeen := Some (Date t), lastMessage := Some m, status := ONLINE,
                    statusChangedAt := Some (Date t)\<rparr>)
               \<and> tamperCheckQueue s' = tamperCheckQueue s
               \<and> fallbackQueue s' = fallbackQueue s
               \<and> quarantineQueue s' = quarantineQueue s
               \<and> metrics s' = (metrics s)\<lparr>totalMessages := totalMessages (metrics s) + 1\<rparr>)"
proof -
  have a: "t - c \<le> 120000 \<or> 120000 < t - c" by linarith
  show ?thesis
    using a processMessage_offline(1)[OF assms] processMessage_offline(3)[OF assms]
    by (auto simp: Let_def)
qed

lemma sample_offline_hyps:
  "isMessageFaulty sample_host (PObj (telemetry ''D2'' at_10_07 (JNum (Fin 230)))) = Inr False"
  "isMessageFaulty sample_host (PObj (telemetry ''D2'' at_10_15 (JNum (Fin 230)))) = Inr False"
  "devices (tracker_with sample_host D2_offline) (JStr ''D2'') = Some D2_offline"
  "status D2_offline = OFFLINE"
  "ToNumber (statusChangedAt D2_offline) = Some 1748858760002"
  "Date_from sample_host (timestamp (telemetry ''D2'' at_10_07 (JNum (Fin 230)))) = Date 1748858820000"
  "Date_from sample_host (timestamp (telemetry ''D2'' at_10_15 (JNum (Fin 230)))) = Date 1748859300000"
  by (simp_all add: isMessageFaulty_def telemetry_def at_10_07_def at_10_15_def sample_host_def
      tracker_with_def D2_offline_def D2_online_def)

theorem offline_device_message_witness:
  "isMessageFaulty sample_host (PObj (telemetry ''D2'' at_10_07 (JNum (Fin 230)))) = Inr False
   \<and> isMessageFaulty sample_host (PObj (telemetry ''D2'' at_10_15 (JNum (Fin 230)))) = Inr False
   \<and> devices (tracker_with sample_host D2_offline) (JStr ''D2'') = Some D2_offline
   \<and> status D2_offline = OFFLINE
   \<and> ToNumber (statusChangedAt D2_offline) = Some 1748858760002
   \<and> Date_from sample_host (timestamp (telemetry ''D2'' at_10_07 (JNum (Fin 230)))) = Date 1748858820000
   \<and> Date_from sample_host (timestamp (telemetry ''D2'' at_10_15 (JNum (Fin 230)))) = Date 1748859300000
   \<and> map_option status (devices (final (processMessage sample_host
          (PObj (telemetry ''D2'' at_10_07 (JNum (Fin 230)))) (tracker_with sample_host D2_offline)))
          (JStr ''D2'')) = Some FLAPPING
   \<and> flapping (metrics (final (processMessage sample_host
          (PObj (telemetry ''D2'' at_10_07 (JNum (Fin 230)))) (tracker_with sample_host D2_offline)))) = 1
   \<and> length (items (tamperCheckQueue (final (processMessage sample_host
          (PObj (telemetry ''D2'' at_10_07 (JNum (Fin 230)))) (tracker_with sample_host D2_offline))))) = 1
   \<and> map_option status (devices (final (processMessage sample_host
          (PObj (telemetry ''D2'' at_10_15 (JNum (Fin 230)))) (tracker_with sample_host D2_offline)))
          (JStr ''D2'')) = Some ONLINE
   \<and> map_option statusChangedAt (devices (final (processMessage sample_host
          (PObj (telemetry ''D2'' at_10_15 (JNum (Fin 230)))) (tracker_with sample_host D2_offline)))
          (JStr ''D2'')) = Some (Some (Date 1748859300000))
   \<and> flapping (metrics (final (processMessage sample_host
          (PObj (telemetry ''D2'' at_10_15 (JNum (Fin 230)))) (tracker_with sample_host D2_offline)))) = 0"
proof -
  have dev: "device_id (telemetry ''D2'' at_10_07 (JNum (Fin 230))) = JStr ''D2''"
            "device_id (telemetry ''D2'' at_10_15 (JNum (Fin 230))) = JStr ''D2''"
    by (simp_all add: telemetry_def)
  note h = sample_offline_hyps
  have a: "isMessageFaulty sample_host (PObj (telemetry ''D2'' at_10_07 (JNum (Fin 230)))) = Inr False"
    and b: "isMessageFaulty sample_host (PObj (telemetry ''D2'' at_10_15 (JNum (Fin 230)))) = Inr False"
    and d7: "devices (tracker_with sample_host D2_offline) (device_id (telemetry ''D2'' at_10_07 (JNum (Fin 230)))) = Some D2_offline"
    and d15: "devices (tracker_with sample_host D2_offline) (device_id (telemetry ''D2'' at_10_15 (JNum (Fin 230)))) = Some D2_offline"
    using h dev by simp_all
  from offline_device_message[OF a d7 h(4) h(5) h(6)]
       offline_device_message[OF b d15 h(4) h(5) h(7)] h
  show ?thesis
    by (simp add: Let_def tracker_with_def StatusTracker_def Queue_def telemetry_def
        D2_offline_def D2_online_def)
qed

lemma processMessage_valid_returns:
  assumes "isMessageFaulty h (PObj m) = Inr False" and "stringifies h (device_id m)"
  shows "returns (processMessage h (PObj m) s)"
proof (cases "status (fst (getOrCreateDevice (device_id m) s)) = OFFLINE")
  case True
  then obtain d where "devices s (device_id m) = Some d" "status d = OFFLINE"
    using offline_is_tracked by blast
  then show ?thesis using processMessage_offline_any(2)[OF assms(1)] assms(2) by blast
next
  case False
  then show ?thesis using processMessage_online[OF assms(1)] by simp
qed

section \<open>Messages from a device that is not OFFLINE\<close>

text \<open>
  Claim C5. A valid message arrives for a device that is new or whose status is not
  \<open>OFFLINE\<close>: the call returns, the status is \<open>ONLINE\<close>, and \<open>statusChangedAt\<close>
  becomes the time of the message only if it was unset; otherwise it keeps its value. So
  a second valid message \<open>m'\<close> for the same device, which takes this branch again, leaves
  \<open>statusChangedAt\<close> as the first call left it. A device that is \<open>OFFLINE\<close> always has
  its \<open>statusChangedAt\<close> assigned: the time of the message, or the clock reading of the
  flapping handler.
\<close>

theorem online_branch_sets_changedAt_once:
  assumes "isMessageFaulty h (PObj m) = Inr False"
  shows "let k = device_id m;
             d0 = fst (getOrCreateDevice k s);
             mt = Date_from h (timestamp m);
             out = processMessage h (PObj m) s
         in (status d0 \<noteq> OFFLINE \<longrightarrow>
               returns out
               \<and> devices (final out) k = Some
                    (d0\<lparr>lastSeen := Some mt, lastMessage := Some m, status := ONLINE,
                        statusChangedAt := (if statusChangedAt d0 = None then Some mt
                                            else statusChangedAt d0)\<rparr>))
          \<and> (status d0 \<noteq> OFFLINE \<and> isMessageFaulty h (PObj m') = Inr False \<and> device_id m' = k \<longrightarrow>
               map_option status (devices (final (processMessage h (PObj m') (final out))) k)
                 = Some ONLINE
               \<and> map_option statusChangedAt
                    (devices (final (processMessage h (PObj m') (final out))) k)
                 = map_option statusChangedAt (devices (final out) k))
          \<and> (status d0 = OFFLINE \<longrightarrow>
               (\<exists>d'. devices (final out) k = Some d'
                  \<and> (statusChangedAt d' = Some mt
                     \<or> statusChangedAt d' = Some (Date (Date_now h (reads s + 1))))))"
proof -
  let ?k = "device_id m"
  let ?d0 = "fst (getOrCreateDevice ?k s)"
  let ?mt = "Date_from h (timestamp m)"
  let ?out = "processMessage h (PObj m) s"
  let ?d1 = "?d0\<lparr>lastSeen := Some ?mt, lastMessage := Some m, status := ONLINE,
                  statusChangedAt := (if statusChangedAt ?d0 = None then Some ?mt
                                      else statusChangedAt ?d0)\<rparr>"
  have first: "returns ?out \<and> devices (final ?out) ?k = Some ?d1" if "status ?d0 \<noteq> OFFLINE"
    using processMessage_online[OF assms that] by simp
  have second:
    "map_option status (devices (final (processMessage h (PObj m') (final ?out))) ?k) = Some ONLINE
     \<and> map_option statusChangedAt (devices (final (processMessage h (PObj m') (final ?out))) ?k)
         = map_option statusChangedAt (devices (final ?out) ?k)"
    if n: "status ?d0 \<noteq> OFFLINE" and v: "isMessageFaulty h (PObj m') = Inr False"
      and k: "device_id m' = ?k"
  proof -
    have d1: "devices (final ?out) (device_id m') = Some ?d1" using first[OF n] k by simp
    have g: "fst (getOrCreateDevice (device_id m') (final ?out)) = ?d1"
      using existing_device[OF d1] by simp
    have "status (fst (getOrCreateDevice (device_id m') (final ?out))) \<noteq> OFFLINE"
      using g by simp
    from processMessage_online[OF v this] g d1 k show ?thesis by simp
  qed
  have third: "\<exists>d'. devices (final ?out) ?k = Some d'
                  \<and> (statusChangedAt d' = Some ?mt
                     \<or> statusChangedAt d' = Some (Date (Date_now h (reads s + 1))))"
    if off: "status ?d0 = OFFLINE"
  proof -
    obtain d where "devices s ?k = Some d" "status d = OFFLINE"
      using offline_is_tracked[OF off] by blast
    from processMessage_offline_any(1)[OF assms this] show ?thesis by blast
  qed
  show ?thesis unfolding Let_def using first second third by blast
qed

theorem online_branch_sets_changedAt_once_witness:
  "isMessageFaulty sample_host (PObj (telemetry ''D1'' at_10_00 (JNum (Fin 230)))) = Inr False
   \<and> status (fst (getOrCreateDevice (device_id (telemetry ''D1'' at_10_00 (JNum (Fin 230))))
                  (tracker_with sample_host D1_faulty))) \<noteq> OFFLINE
   \<and> returns (processMessage sample_host (PObj (telemetry ''D1'' at_10_00 (JNum (Fin 230))))
        (tracker_with sample_host D1_faulty))
   \<and> devices (final (processMessage sample_host
        (PObj (telemetry ''D1'' at_10_00 (JNum (Fin 230)))) (tracker_with sample_host D1_faulty)))
        (JStr ''D1'')
     = Some \<lparr>dev_id = JStr ''D1'', status = ONLINE, lastSeen = Some (Date 1748858400000),
             statusChangedAt = Some (Date 2),
             lastMessage = Some (telemetry ''D1'' at_10_00 (JNum (Fin 230)))\<rparr>"
proof -
  have v: "isMessageFaulty sample_host (PObj (telemetry ''D1'' at_10_00 (JNum (Fin 230)))) = Inr False"
    by (simp add: isMessageFaulty_def telemetry_def at_10_00_def sample_host_def)
  have k: "device_id (telemetry ''D1'' at_10_00 (JNum (Fin 230))) = JStr ''D1''"
    by (simp add: telemetry_def)
  have g: "fst (getOrCreateDevice (JStr ''D1'') (tracker_with sample_host D1_faulty)) = D1_faulty"
    by (simp add: getOrCreateDevice_def tracker_with_def D1_faulty_def)
  have t: "Date_from sample_host (timestamp (telemetry ''D1'' at_10_00 (JNum (Fin 230))))
           = Date 1748858400000"
    by (simp add: telemetry_def at_10_00_def sample_host_def)
  have n: "status D1_faulty \<noteq> OFFLINE" "statusChangedAt D1_faulty = Some (Date 2)"
    by (simp_all add: D1_faulty_def)
  from online_branch_sets_changedAt_once[OF v, where s = "tracker_with sample_host D1_faulty"
         and m' = "telemetry ''D1'' at_10_00 (JNum (Fin 230))"]
  have "returns (processMessage sample_host (PObj (telemetry ''D1'' at_10_00 (JNum (Fin 230))))
          (tracker_with sample_host D1_faulty))
        \<and> devices (final (processMessage sample_host
            (PObj (telemetry ''D1'' at_10_00 (JNum (Fin 230)))) (tracker_with sample_host D1_faulty)))
            (JStr ''D1'')
          = Some (D1_faulty\<lparr>lastSeen := Some (Date 1748858400000),
                    lastMessage := Some (telemetry ''D1'' at_10_00 (JNum (Fin 230))),
                    status := ONLINE\<rparr>)"
    by (simp add: Let_def k g t n)
  then show ?thesis using v n by (simp add: k g, simp add: D1_faulty_def)
qed

section \<open>A voltage that is not a number\<close>

text \<open>
  Claim C10. \<open>NaN\<close> has type \<open>number\<close> and is neither below 50 nor at least 50. A
  payload whose voltage is \<open>NaN\<close> and whose timestamp is a string other than
  \<open>bad-timestamp\<close> that parses is not faulty for \<open>isMessageFaulty\<close>; \<open>processMessage\<close>
  then sets the status of a device that is new or not \<open>OFFLINE\<close> to \<open>ONLINE\<close>, and in
  no state to \<open>FAULTY\<close>.
\<close>

theorem nan_voltage_accepted:
  assumes "voltage m = JNum NaN" and "timestamp m = JStr t" and "t \<noteq> ''bad-timestamp''"
      and "Date_from h (JStr t) \<noteq> Invalid_Date"
  shows "typeof (voltage m) = T_number
       \<and> \<not> num_less NaN (Fin 50) \<and> \<not> num_geq NaN (Fin 50)
       \<and> isMessageFaulty h (PObj m) = Inr False
       \<and> (status (fst (getOrCreateDevice (device_id m) s)) \<noteq> OFFLINE \<longrightarrow>
            returns (processMessage h (PObj m) s)
            \<and> map_option status (devices (final (processMessage h (PObj m) s)) (device_id m))
                = Some ONLINE)
       \<and> map_option status (devices (final (processMessage h (PObj m) s)) (device_id m))
            \<noteq> Some FAULTY"
proof -
  have v: "isMessageFaulty h (PObj m) = Inr False"
    using assms by (cases "Date_from h (JStr t)") (simp_all add: isMessageFaulty_def)
  have on: "returns (processMessage h (PObj m) s)
            \<and> map_option status (devices (final (processMessage h (PObj m) s)) (device_id m))
                = Some ONLINE"
    if "status (fst (getOrCreateDevice (device_id m) s)) \<noteq> OFFLINE"
    using processMessage_online[OF v that] by simp
  have nf: "map_option status (devices (final (processMessage h (PObj m) s)) (device_id m))
            \<noteq> Some FAULTY"
  proof (cases "status (fst (getOrCreateDevice (device_id m) s)) = OFFLINE")
    case True
    then obtain d where "devices s (device_id m) = Some d" "status d = OFFLINE"
      using offline_is_tracked by blast
    from processMessage_offline_any(1)[OF v this] show ?thesis by auto
  next
    case False
    then show ?thesis using on by auto
  qed
  show ?thesis using v on nf assms(1) by (simp add: num_geq_def)
qed

theorem nan_voltage_accepted_witness:
  "voltage (telemetry ''D3'' at_10_00 (JNum NaN)) = JNum NaN
   \<and> timestamp (telemetry ''D3'' at_10_00 (JNum NaN)) = JStr ''2025-06-02T10:00:00.000Z''
   \<and> ''2025-06-02T10:00:00.000Z'' \<noteq> ''bad-timestamp''
   \<and> Date_from sample_host (JStr ''2025-06-02T10:00:00.000Z'') \<noteq> Invalid_Date
   \<and> status (fst (getOrCreateDevice (device_id (telemetry ''D3'' at_10_00 (JNum NaN)))
                  (StatusTracker sample_host 0))) \<noteq> OFFLINE
   \<and> isMessageFaulty sample_host (PObj (telemetry ''D3'' at_10_00 (JNum NaN))) = Inr False
   \<and> map_option status (devices (final (processMessage sample_host
          (PObj (telemetry ''D3'' at_10_00 (JNum NaN))) (StatusTracker sample_host 0)))
          (device_id (telemetry ''D3'' at_10_00 (JNum NaN)))) = Some ONLINE"
proof -
  have h: "voltage (telemetry ''D3'' at_10_00 (JNum NaN)) = JNum NaN"
          "timestamp (telemetry ''D3'' at_10_00 (JNum NaN)) = JStr ''2025-06-02T10:00:00.000Z''"
          "''2025-06-02T10:00:00.000Z'' \<noteq> ''bad-timestamp''"
          "Date_from sample_host (JStr ''2025-06-02T10:00:00.000Z'') \<noteq> Invalid_Date"
    by (simp_all add: telemetry_def at_10_00_def sample_host_def)
  have g: "status (fst (getOrCreateDevice (device_id (telemetry ''D3'' at_10_00 (JNum NaN)))
                  (StatusTracker sample_host 0))) \<noteq> OFFLINE"
    by (simp add: getOrCreateDevice_def StatusTracker_def Let_def)
  from nan_voltage_accepted[OF h, of "StatusTracker sample_host 0"] h g
  show ?thesis by simp
qed

section \<open>What processMessage raises\<close>

text \<open>
  Claim C8, as stated: \<open>processMessage\<close> raises for no payload. It raises on
  \<open>null\<close>: the destructuring of the payload is not guarded. The counter of messages
  has been incremented by then.
\<close>

theorem null_payload_raises:
  "\<not> returns (processMessage sample_host PNull (StatusTracker sample_host 0))
   \<and> processMessage sample_host PNull (StatusTracker sample_host 0)
     = Threw TypeError ((StatusTracker sample_host 0)
         \<lparr>metrics := (metrics (StatusTracker sample_host 0))\<lparr>totalMessages := 1\<rparr>\<rparr>)"
  by (simp add: processMessage_def StatusTracker_def)

text \<open>
  Claim C8, amended. \<open>processMessage\<close> returns for every payload other than \<open>null\<close>
  and \<open>undefined\<close> whose device id converts to a string, whatever its fields hold or
  miss; when the payload is faulty the device ends \<open>FAULTY\<close> and the quarantine queue
  has one item more. On \<open>null\<close> and on \<open>undefined\<close> it raises.
\<close>

theorem processMessage_raises_on_no_object_only:
  assumes "stringifies h (device_id m)"
  shows "returns (processMessage h (PObj m) s)
       \<and> (isMessageFaulty h (PObj m) = Inr True \<longrightarrow>
            map_option status (devices (final (processMessage h (PObj m) s)) (device_id m))
              = Some FAULTY
            \<and> length (items (quarantineQueue (final (processMessage h (PObj m) s))))
              = length (items (quarantineQueue s)) + 1)
       \<and> \<not> returns (processMessage h PNull s)
       \<and> \<not> returns (processMessage h PUndefined s)"
proof -
  obtain b where b: "isMessageFaulty h (PObj m) = Inr b" using isMessageFaulty_PObj by blast
  have r: "returns (processMessage h (PObj m) s)"
  proof (cases b)
    case True
    then show ?thesis using processMessage_faulty(2)[of h m s] b assms by simp
  next
    case False
    then show ?thesis using processMessage_valid_returns[of h m s] b assms by simp
  qed
  have f: "map_option status (devices (final (processMessage h (PObj m) s)) (device_id m))
              = Some FAULTY
            \<and> length (items (quarantineQueue (final (processMessage h (PObj m) s))))
              = length (items (quarantineQueue s)) + 1"
    if "isMessageFaulty h (PObj m) = Inr True"
    unfolding processMessage_faulty(1)[OF that] by simp
  have n: "\<not> returns (processMessage h PNull s)" "\<not> returns (processMessage h PUndefined s)"
    by (simp_all add: processMessage_def)
  show ?thesis using r f n by blast
qed

theorem processMessage_raises_on_no_object_only_witness:
  "stringifies sample_host (device_id (telemetry ''D1'' JNull JUndefined))
   \<and> returns (processMessage sample_host (PObj (telemetry ''D1'' JNull JUndefined))
        (StatusTracker sample_host 0))
   \<and> isMessageFaulty sample_host (PObj (telemetry ''D1'' JNull JUndefined)) = Inr True
   \<and> map_option status (devices (final (processMessage sample_host
        (PObj (telemetry ''D1'' JNull JUndefined)) (StatusTracker sample_host 0)))
        (device_id (telemetry ''D1'' JNull JUndefined))) = Some FAULTY"
proof -
  have h: "stringifies sample_host (device_id (telemetry ''D1'' JNull JUndefined))"
    by (simp add: telemetry_def)
  have f: "isMessageFaulty sample_host (PObj (telemetry ''D1'' JNull JUndefined)) = Inr True"
    by (simp add: isMessageFaulty_def telemetry_def)
  from processMessage_raises_on_no_object_only[OF h, of "StatusTracker sample_host 0"] h f
  show ?thesis by simp
qed

text \<open>
  The proviso on the device id is needed: a faulty payload whose device id is an object
  that does not convert to a string is quarantined, and then the log line raises.
\<close>

lemma unprintable_device_id_raises:
  "\<not> returns (processMessage sample_host
        (PObj \<lparr>device_id = JObj 0, timestamp = at_10_00, power_kw = JNum (Fin 3),
               voltage = JNum (Fin 10)\<rparr>) (StatusTracker sample_host 0))"
proof -
  have f: "isMessageFaulty sample_host
        (PObj \<lparr>device_id = JObj 0, timestamp = at_10_00, power_kw = JNum (Fin 3),
               voltage = JNum (Fin 10)\<rparr>) = Inr True"
    by (simp add: isMessageFaulty_def)
  show ?thesis unfolding processMessage_faulty(2)[OF f] by (simp add: sample_host_def)
qed

section \<open>The sweep\<close>

lemma handleOfflineDevice_tracked:
  assumes "devices s k = Some d"
  shows "final (handleOfflineDevice h k s) =
     s\<lparr>devices := (devices s)(k \<mapsto>
          d\<lparr>status := OFFLINE, statusChangedAt := Some (Date (Date_now h (reads s)))\<rparr>),
       fallbackQueue := (fallbackQueue s)\<lparr>items := items (fallbackQueue s) @
          [\<lparr>deviceId = k, reason = ''No data for more than 5 minutes'',
            item_timestamp = Date_now h (reads s + 1), retryAttempt = None,
            enqueuedAt = Date_now h (reads s + 2),
            item_id = (name (fallbackQueue s), Date_now h (reads s + 3),
                       Math_random h (reads s + 4))\<rparr>]\<rparr>,
       metrics := (metrics s)\<lparr>fallbacks := fallbacks (metrics s) + 1\<rparr>,
       reads := reads s + 5\<rparr>"
    and "returns (handleOfflineDevice h k s) = stringifies h k"
  using assms
  by (simp_all add: handleOfflineDevice_def getOrCreateDevice_def store_def enqueue_def
      console_log_def Let_def eval_nat_numeral)

text \<open>What one handler call does to the observations the sweep lemmas are about.\<close>

lemma handleOfflineDevice_effect:
  assumes "devices s k = Some d"
  shows "devices (final (handleOfflineDevice h k s)) =
           (devices s)(k \<mapsto> d\<lparr>status := OFFLINE,
                                  statusChangedAt := Some (Date (Date_now h (reads s)))\<rparr>)"
    and "items_for k' (fallbackQueue (final (handleOfflineDevice h k s)))
           = items_for k' (fallbackQueue s) @
               (if k' = k then
                  [\<lparr>deviceId = k, reason = ''No data for more than 5 minutes'',
                    item_timestamp = Date_now h (reads s + 1), retryAttempt = None,
                    enqueuedAt = Date_now h (reads s + 2),
                    item_id = (name (fallbackQueue s), Date_now h (reads s + 3),
                               Math_random h (reads s + 4))\<rparr>]
                else [])"
    and "length (items (fallbackQueue (final (handleOfflineDevice h k s))))
           = length (items (fallbackQueue s)) + 1"
    and "fallbacks (metrics (final (handleOfflineDevice h k s))) = fallbacks (metrics s) + 1"
    and "reads (final (handleOfflineDevice h k s)) = reads s + 5"
    and "device_order (final (handleOfflineDevice h k s)) = device_order s"
  unfolding handleOfflineDevice_tracked(1)[OF assms] by (simp_all add: items_for_def)

lemma sweep_step:
  "sweep h fma (k # ks) s =
     (case devices s k of
        None \<Rightarrow> sweep h fma ks s
      | Some d \<Rightarrow>
          if is_stale fma d
          then (if stringifies h k then sweep h fma ks (final (handleOfflineDevice h k s))
                else Threw TypeError (final (handleOfflineDevice h k s)))
          else sweep h fma ks s)"
proof (cases "devices s k")
  case None
  then show ?thesis by simp
next
  case (Some d)
  show ?thesis
  proof (cases "handleOfflineDevice h k s")
    case (Done s1)
    then have "stringifies h k" using handleOfflineDevice_tracked(2)[OF Some, of h] by simp
    then show ?thesis using Some Done by simp
  next
    case (Threw e s1)
    then have "\<not> stringifies h k" using handleOfflineDevice_tracked(2)[OF Some, of h] by simp
    moreover have "e = TypeError" by (cases e) simp
    ultimately show ?thesis using Some Threw by simp
  qed
qed




lemma sweep_frame:
  "device_order (final (sweep h fma ks s)) = device_order s
   \<and> tamperCheckQueue (final (sweep h fma ks s)) = tamperCheckQueue s
   \<and> quarantineQueue (final (sweep h fma ks s)) = quarantineQueue s
   \<and> timers (final (sweep h fma ks s)) = timers s
   \<and> fallbacks (metrics (final (sweep h fma ks s))) + length (items (fallbackQueue s))
       = fallbacks (metrics s) + length (items (fallbackQueue (final (sweep h fma ks s))))"
proof (induction ks arbitrary: s)
  case Nil
  then show ?case by simp
next
  case (Cons k0 ks)
  show ?case
  proof (cases "devices s k0")
    case None
    then show ?thesis using Cons.IH[of s] by (simp add: sweep_step del: sweep.simps)
  next
    case (Some d0)
    let ?s1 = "final (handleOfflineDevice h k0 s)"
    have s1: "device_order ?s1 = device_order s" "tamperCheckQueue ?s1 = tamperCheckQueue s"
      "quarantineQueue ?s1 = quarantineQueue s" "timers ?s1 = timers s"
      "fallbacks (metrics ?s1) = fallbacks (metrics s) + 1"
      "length (items (fallbackQueue ?s1)) = length (items (fallbackQueue s)) + 1"
      unfolding handleOfflineDevice_tracked(1)[OF Some] by simp_all
    show ?thesis using Some Cons.IH[of s] Cons.IH[of ?s1] s1
      by (simp add: sweep_step del: sweep.simps)
  qed
qed



lemma sweep_dom: "dom (devices (final (sweep h fma ks s))) = dom (devices s)"
proof (induction ks arbitrary: s)
  case Nil
  then show ?case by simp
next
  case (Cons k0 ks)
  show ?case
  proof (cases "devices s k0")
    case None
    then show ?thesis using Cons.IH[of s] by (simp add: sweep_step del: sweep.simps)
  next
    case (Some d0)
    have "dom (devices (final (handleOfflineDevice h k0 s))) = dom (devices s)"
      using handleOfflineDevice_effect(1)[OF Some, of h] Some by auto
    then show ?thesis using Some Cons.IH[of s] Cons.IH[of "final (handleOfflineDevice h k0 s)"]
      by (simp add: sweep_step del: sweep.simps)
  qed
qed

lemma checkOfflineDevices_sweep:
  "checkOfflineDevices h s =
     sweep h (Date_now h (reads s) - 300000) (device_order s) (s\<lparr>reads := reads s + 1\<rparr>)"
  by (simp add: checkOfflineDevices_def Let_def)

lemma offline_not_stale: "status d = OFFLINE \<Longrightarrow> \<not> is_stale fma d"
  by (simp add: is_stale_def)





lemma checkOfflineDevices_order:
  "device_order (final (checkOfflineDevices h s)) = device_order s"
  unfolding checkOfflineDevices_sweep
  using sweep_frame[of h "Date_now h (reads s) - 300000" "device_order s" "s\<lparr>reads := reads s + 1\<rparr>"]
  by simp








section \<open>Devices that were never seen\<close>


text \<open>
  The unset \<open>lastSeen\<close> is not older than any threshold either: the comparison reads it
  as \<open>0\<close>, the epoch, and the threshold is the clock minus five minutes. On a clock that
  has not yet passed five minutes after the epoch, as a test clock that starts at \<open>0\<close>,
  the sweep returns and leaves the device alone. Here a new tracker receives one faulty
  message for \<open>D1\<close> and then sweeps.
\<close>

lemma quarantined_state:
  "devices quarantined = [JStr ''D1'' \<mapsto> D1_faulty]"
  "device_order quarantined = [JStr ''D1'']"
  "fallbackQueue quarantined = Queue ''fallback''"
  "fallbacks (metrics quarantined) = 0"
  "reads quarantined = 7"
proof -
  have f: "isMessageFaulty epoch_host (PObj (telemetry ''D1'' at_10_00 (JNum (Fin 10)))) = Inr True"
    by (simp add: isMessageFaulty_def telemetry_def)
  show "devices quarantined = [JStr ''D1'' \<mapsto> D1_faulty]"
    "device_order quarantined = [JStr ''D1'']"
    "fallbackQueue quarantined = Queue ''fallback''"
    "fallbacks (metrics quarantined) = 0"
    "reads quarantined = 7"
    unfolding quarantined_def processMessage_faulty(1)[OF f]
    by (simp_all add: getOrCreateDevice_def StatusTracker_def telemetry_def D1_faulty_def
        epoch_host_def Let_def)
qed

lemma never_seen_device_at_epoch:
  "devices quarantined (JStr ''D1'') = Some D1_faulty
   \<and> lastSeen D1_faulty = None
   \<and> status D1_faulty = FAULTY
   \<and> checkOfflineDevices epoch_host quarantined = Done (quarantined\<lparr>reads := 8\<rparr>)
   \<and> devices (final (checkOfflineDevices epoch_host quarantined)) (JStr ''D1'') = Some D1_faulty
   \<and> items (fallbackQueue (final (checkOfflineDevices epoch_host quarantined))) = []
   \<and> fallbacks (metrics (final (checkOfflineDevices epoch_host quarantined))) = 0"
proof -
  have ns: "\<not> is_stale (Date_now epoch_host 7 - 5 * 60 * 1000) D1_faulty"
    by (simp add: is_stale_def D1_faulty_def epoch_host_def)
  have c: "checkOfflineDevices epoch_host quarantined = Done (quarantined\<lparr>reads := 8\<rparr>)"
    using ns by (simp add: checkOfflineDevices_def Let_def quarantined_state)
  show ?thesis
    unfolding c by (simp add: quarantined_state, simp add: D1_faulty_def Queue_def)
qed



section \<open>The retry drain\<close>

lemma drain_items_processed:
  "items (fallbackQueue (drain rc s)) =
     drop (min (100 - rc) (length (items (fallbackQueue s)))) (items (fallbackQueue s))
   \<and> processed (fallbackQueue (drain rc s)) =
     processed (fallbackQueue s) + min (100 - rc) (length (items (fallbackQueue s)))"
proof (induction rc s rule: drain.induct)
  case (1 retryCount s)
  show ?case
  proof (cases "size_queue (fallbackQueue s) > 0 \<and> retryCount < 100")
    case False
    then show ?thesis by (auto simp: size_queue_def)
  next
    case True
    then obtain x xs where xs: "items (fallbackQueue s) = x # xs"
      by (cases "items (fallbackQueue s)") (auto simp: size_queue_def)
    let ?q = "(fallbackQueue s)\<lparr>items := xs, processed := processed (fallbackQueue s) + 1\<rparr>"
    have dq: "dequeue (fallbackQueue s) = (Some x, ?q)" by (simp add: dequeue_def xs)
    obtain c q' where rt: "retry (deviceId x) 3 ?q = (c, q')" by (cases "retry (deviceId x) 3 ?q")
    have q': "items q' = xs" "processed q' = processed (fallbackQueue s) + 1"
      using rt by (auto simp: retry_def Let_def split: if_splits)
    note IH = "1.IH"(2)[OF True dq[symmetric] refl rt[symmetric]]
    have m: "min (100 - retryCount) (Suc (length xs)) = Suc (min (100 - (retryCount + 1)) (length xs))"
      using True by auto
    show ?thesis
      apply (subst (1 2) drain.simps)
      using True IH dq rt q' xs m by (simp del: drain.simps)
  qed
qed

lemma drain_frame:
  "devices (drain rc s) = devices s \<and> device_order (drain rc s) = device_order s
   \<and> tamperCheckQueue (drain rc s) = tamperCheckQueue s
   \<and> quarantineQueue (drain rc s) = quarantineQueue s
   \<and> metrics (drain rc s) = metrics s \<and> reads (drain rc s) = reads s"
proof (induction rc s rule: drain.induct)
  case (1 retryCount s)
  show ?case
  proof (cases "size_queue (fallbackQueue s) > 0 \<and> retryCount < 100")
    case False
    then show ?thesis by auto
  next
    case True
    then obtain x xs where xs: "items (fallbackQueue s) = x # xs"
      by (cases "items (fallbackQueue s)") (auto simp: size_queue_def)
    let ?q = "(fallbackQueue s)\<lparr>items := xs, processed := processed (fallbackQueue s) + 1\<rparr>"
    have dq: "dequeue (fallbackQueue s) = (Some x, ?q)" by (simp add: dequeue_def xs)
    obtain c q' where rt: "retry (deviceId x) 3 ?q = (c, q')" by (cases "retry (deviceId x) 3 ?q")
    note IH = "1.IH"(2)[OF True dq[symmetric] refl rt[symmetric]]
    show ?thesis
      apply (subst (1 2 3 4 5 6) drain.simps)
      using True IH dq rt by (simp del: drain.simps)
  qed
qed

text \<open>
  Claim C9. The loop of \<open>processFallbackRetries\<close> is defined by a recursion that has
  been proved to terminate, so every call returns. It takes from the head of the fallback
  queue as many items as the queue holds, and at most 100; nothing is put back during the
  call. It stops with the queue empty or with exactly 100 items dequeued.
\<close>

theorem processFallbackRetries_bounded:
  "items (fallbackQueue (processFallbackRetries s)) = drop 100 (items (fallbackQueue s))
   \<and> processed (fallbackQueue (processFallbackRetries s))
       = processed (fallbackQueue s) + min 100 (length (items (fallbackQueue s)))
   \<and> processed (fallbackQueue (processFallbackRetries s)) - processed (fallbackQueue s) \<le> 100
   \<and> (items (fallbackQueue (processFallbackRetries s)) = []
        \<or> processed (fallbackQueue (processFallbackRetries s)) = processed (fallbackQueue s) + 100)"
proof -
  have "min 100 (length (items (fallbackQueue s))) = 100 \<or> length (items (fallbackQueue s)) \<le> 100"
    by auto
  then show ?thesis
    using drain_items_processed[of 0 s] by (auto simp: processFallbackRetries_def min_def)
qed

section \<open>Well-formed trackers\<close>

text \<open>
  The tracker that the constructor makes is well formed, and every operation keeps a
  tracker well formed, in whatever way the call ends.
\<close>

lemma well_formed_StatusTracker: "well_formed (StatusTracker h n)"
  by (simp add: well_formed_def StatusTracker_def)

lemma processMessage_keys:
  "device_order (final (processMessage h p s))
     = (case p of PObj m \<Rightarrow> (if devices s (device_id m) = None then device_order s @ [device_id m]
                               else device_order s)
        | _ \<Rightarrow> device_order s)
   \<and> dom (devices (final (processMessage h p s)))
     = (case p of PObj m \<Rightarrow> insert (device_id m) (dom (devices s)) | _ \<Rightarrow> dom (devices s))"
proof (cases p)
  case PUndefined
  then show ?thesis by (simp add: processMessage_def)
next
  case PNull
  then show ?thesis by (simp add: processMessage_def)
next
  case (PObj m)
  obtain b where b: "isMessageFaulty h (PObj m) = Inr b" using isMessageFaulty_PObj by blast
  show ?thesis
  proof (cases b)
    case True
    then show ?thesis unfolding PObj using processMessage_faulty(1)[of h m s] b by simp
  next
    case False
    then have v: "isMessageFaulty h (PObj m) = Inr False" using b by simp
    show ?thesis
    proof (cases "devices s (device_id m)")
      case None
      then have "status (fst (getOrCreateDevice (device_id m) s)) \<noteq> OFFLINE"
        by (simp add: getOrCreateDevice_def Let_def)
      from processMessage_online[OF v this] None show ?thesis unfolding PObj by simp
    next
      case (Some d)
      then show ?thesis unfolding PObj using v
        by (cases "case offlineDuration (Date_from h (timestamp m)) (statusChangedAt d) of
               None \<Rightarrow> False | Some r \<Rightarrow> r \<le> 2";
            cases "status d = OFFLINE";
            simp add: processMessage_def handleFlappingDevice_def getOrCreateDevice_def store_def
              enqueue_def console_log_def Let_def; blast?)
    qed
  qed
qed

lemma well_formed_processMessage:
  "well_formed s \<Longrightarrow> well_formed (final (processMessage h p s))"
  using processMessage_keys[of h p s]
  by (cases p) (auto simp: well_formed_def split: if_splits)

lemma well_formed_checkOfflineDevices:
  "well_formed s \<Longrightarrow> well_formed (final (checkOfflineDevices h s))"
  using sweep_dom[of h "Date_now h (reads s) - 300000" "device_order s" "s\<lparr>reads := reads s + 1\<rparr>"]
        checkOfflineDevices_order[of h s]
  by (simp add: well_formed_def checkOfflineDevices_sweep)

lemma well_formed_processFallbackRetries:
  "well_formed s \<Longrightarrow> well_formed (processFallbackRetries s)"
  using drain_frame[of 0 s] by (simp add: well_formed_def processFallbackRetries_def)

end
